theory Spec2Isabelle
  imports Complex_Main
begin

section \<open>Data model of the Item component\<close>

text \<open>
  The component \<open>Item\<close> reads two React contexts (the list context and the group context of
  the enclosing group), its own props and its own set of registered children. Its gesture
  handlers write the list context, touch the DOM through helpers and call the host's
  callbacks. The embedding passes the mutable part of the list context explicitly and logs
  every write, DOM helper call and callback, in program order, in the field \<open>trace\<close>.
  A React state setter is taken to take effect at the call.
\<close>

type_synonym XY = "real \<times> real"

datatype Direction = Vertical | Horizontal

text \<open>Modelled from the spec: the result type of \<open>getDropLineDirectionFromXY\<close> (module
  \<open>./shared\<close>, not among the sources), "one of {before, after}".\<close>

datatype DropLineDirection = Before | After

text \<open>Modelled from the spec: the type \<open>NodeMeta\<close> of \<open>./shared\<close> is not among the sources.
  The element and the layout read from it are one abstract value of type \<open>'el\<close>.\<close>

record ('id, 'el) NodeMeta =
  nm_identifier :: 'id
  nm_groupIdentifier :: "'id option"
  nm_ancestorIdentifiers :: "'id list"
  nm_index :: int
  nm_isGroup :: bool
  nm_boundingGeometry :: 'el

record 'id DestinationMeta =
  dm_groupIdentifier :: "'id option"
  dm_index :: "int option"

record 'id Props =
  p_identifier :: 'id
  p_index :: int
  p_isGroup :: "bool option"
  p_isLocked :: "bool option"
  p_isLonely :: "bool option"

text \<open>The JavaScript \<open>Set\<close> behind \<open>childIdentifiersRef\<close> is a duplicate-free list in
  insertion order; \<open>size\<close> is its length.\<close>

record 'id GroupContext =
  gc_identifier :: "'id option"
  gc_ancestorIdentifiers :: "'id list"
  gc_childIdentifiers :: "'id list"

record 'id DragStartMeta =
  ds_identifier :: 'id
  ds_groupIdentifier :: "'id option"
  ds_index :: int
  ds_isGroup :: bool

record 'id DragEndMeta =
  de_identifier :: 'id
  de_groupIdentifier :: "'id option"
  de_index :: int
  de_isGroup :: bool
  de_nextGroupIdentifier :: "'id option"
  de_nextIndex :: "int option"

record 'id StackGroupMeta =
  sg_identifier :: 'id
  sg_groupIdentifier :: "'id option"
  sg_index :: int
  sg_isGroup :: bool
  sg_nextGroupIdentifier :: "'id option"

text \<open>One entry of the log: a DOM helper call with its arguments, a write of the list
  context, or a call of a host callback with its payload.\<close>

datatype ('id, 'el) Effect =
    SetBodyStyle "string option"
  | InitializeGhostElementStyle 'el "'el option" real Direction
  | ClearBodyStyle
  | ClearGhostElementStyle "'el option"
  | MoveGhostElement "'el option" XY
  | SetDropLineElementStyle "'el option" XY "('id, 'el) NodeMeta" Direction
  | SetDraggingNodeMeta "('id, 'el) NodeMeta option"
  | SetIsVisibleDropLineElement bool
  | SetStackedGroupIdentifier "'id option"
  | WriteHoveredNodeMetaRef "('id, 'el) NodeMeta option"
  | WriteDestinationMetaRef "'id DestinationMeta option"
  | CallOnDragStart "'id DragStartMeta"
  | CallOnDragEnd "'id DragEndMeta"
  | CallOnStackGroup "'id StackGroupMeta"

text \<open>The static part of the list context. The callbacks \<open>onDragStart\<close> and
  \<open>onStackGroup\<close> are optional in the source (\<open>?.\<close>): the flag says whether the host
  supplied one. \<open>onDragEnd\<close> is always there.\<close>

record 'el ListContext =
  lc_isDisabled :: "bool option"
  lc_direction :: Direction
  lc_itemSpacing :: real
  lc_stackableAreaThreshold :: real
  lc_draggingCursorStyle :: "string option"
  lc_ghostWrapperElementRef :: "'el option"
  lc_dropLineElementRef :: "'el option"
  lc_onDragStart :: bool
  lc_onStackGroup :: bool

text \<open>The geometry helpers of \<open>./shared\<close> are not among the sources and their formulas are
  not fixed by the spec: they are parameters of the handlers.\<close>

record ('id, 'el) Shared =
  getDropLineDirectionFromXY ::
    "XY \<Rightarrow> ('id, 'el) NodeMeta \<Rightarrow> Direction \<Rightarrow> DropLineDirection"
  checkIsInStackableArea ::
    "XY \<Rightarrow> ('id, 'el) NodeMeta \<Rightarrow> real \<Rightarrow> Direction \<Rightarrow> bool"

text \<open>The mutable part of the list context, and the log.\<close>

record ('id, 'el) ListState =
  draggingNodeMeta :: "('id, 'el) NodeMeta option"
  isVisibleDropLineElement :: bool
  stackedGroupIdentifier :: "'id option"
  hoveredNodeMetaRef :: "('id, 'el) NodeMeta option"
  destinationMetaRef :: "'id DestinationMeta option"
  trace :: "('id, 'el) Effect list"

text \<open>The gesture event: \<open>currentTarget\<close> is \<open>None\<close> when it is not an \<open>HTMLElement\<close>.
  The handlers return the methods they called on the event.\<close>

record 'el Event =
  currentTarget :: "'el option"

datatype EventAction = Persist | StopPropagation

section \<open>Helpers\<close>

named_theorems item_defs

definition emit :: "('id, 'el) Effect \<Rightarrow> ('id, 'el) ListState \<Rightarrow> ('id, 'el) ListState" where
  [item_defs]: "emit e s = s\<lparr>trace := trace s @ [e]\<rparr>"

text \<open>Modelled from the spec: the DOM helpers of \<open>./item\<close> (\<open>setBodyStyle\<close>,
  \<open>initializeGhostElementStyle\<close>, \<open>clearBodyStyle\<close>, \<open>clearGhostElementStyle\<close>,
  \<open>moveGhostElement\<close>, \<open>setDropLineElementStyle\<close>) are not among the sources. They style
  DOM elements and do not touch the list context: each call is logged with its arguments.\<close>

definition setBodyStyle :: "string option \<Rightarrow> ('id, 'el) ListState \<Rightarrow> ('id, 'el) ListState" where
  [item_defs]: "setBodyStyle c = emit (SetBodyStyle c)"

definition initializeGhostElementStyle ::
  "'el \<Rightarrow> 'el option \<Rightarrow> real \<Rightarrow> Direction \<Rightarrow> ('id, 'el) ListState \<Rightarrow> ('id, 'el) ListState" where
  [item_defs]: "initializeGhostElementStyle element ghost spacing dir =
     emit (InitializeGhostElementStyle element ghost spacing dir)"

definition clearBodyStyle :: "('id, 'el) ListState \<Rightarrow> ('id, 'el) ListState" where
  [item_defs]: "clearBodyStyle = emit ClearBodyStyle"

definition clearGhostElementStyle :: "'el option \<Rightarrow> ('id, 'el) ListState \<Rightarrow> ('id, 'el) ListState" where
  [item_defs]: "clearGhostElementStyle ghost = emit (ClearGhostElementStyle ghost)"

definition moveGhostElement :: "'el option \<Rightarrow> XY \<Rightarrow> ('id, 'el) ListState \<Rightarrow> ('id, 'el) ListState" where
  [item_defs]: "moveGhostElement ghost movement = emit (MoveGhostElement ghost movement)"

definition setDropLineElementStyle ::
  "'el option \<Rightarrow> XY \<Rightarrow> ('id, 'el) NodeMeta \<Rightarrow> Direction \<Rightarrow> ('id, 'el) ListState \<Rightarrow> ('id, 'el) ListState" where
  [item_defs]: "setDropLineElementStyle dropLine absoluteXY hovered dir =
     emit (SetDropLineElementStyle dropLine absoluteXY hovered dir)"

text \<open>The setters and ref writes of the list context.\<close>

definition setDraggingNodeMeta ::
  "('id, 'el) NodeMeta option \<Rightarrow> ('id, 'el) ListState \<Rightarrow> ('id, 'el) ListState" where
  [item_defs]: "setDraggingNodeMeta m s = emit (SetDraggingNodeMeta m) (s\<lparr>draggingNodeMeta := m\<rparr>)"

definition setIsVisibleDropLineElement :: "bool \<Rightarrow> ('id, 'el) ListState \<Rightarrow> ('id, 'el) ListState" where
  [item_defs]: "setIsVisibleDropLineElement b s =
     emit (SetIsVisibleDropLineElement b) (s\<lparr>isVisibleDropLineElement := b\<rparr>)"

definition setStackedGroupIdentifier :: "'id option \<Rightarrow> ('id, 'el) ListState \<Rightarrow> ('id, 'el) ListState" where
  [item_defs]: "setStackedGroupIdentifier g s =
     emit (SetStackedGroupIdentifier g) (s\<lparr>stackedGroupIdentifier := g\<rparr>)"

definition writeHoveredNodeMetaRef ::
  "('id, 'el) NodeMeta option \<Rightarrow> ('id, 'el) ListState \<Rightarrow> ('id, 'el) ListState" where
  [item_defs]: "writeHoveredNodeMetaRef m s =
     emit (WriteHoveredNodeMetaRef m) (s\<lparr>hoveredNodeMetaRef := m\<rparr>)"

definition writeDestinationMetaRef ::
  "'id DestinationMeta option \<Rightarrow> ('id, 'el) ListState \<Rightarrow> ('id, 'el) ListState" where
  [item_defs]: "writeDestinationMetaRef d s =
     emit (WriteDestinationMetaRef d) (s\<lparr>destinationMetaRef := d\<rparr>)"

text \<open>The callbacks: an optional one is called only when the host supplied it.\<close>

definition callOnDragStart ::
  "'el ListContext \<Rightarrow> 'id DragStartMeta \<Rightarrow> ('id, 'el) ListState \<Rightarrow> ('id, 'el) ListState" where
  [item_defs]: "callOnDragStart lc m s = (if lc_onDragStart lc then emit (CallOnDragStart m) s else s)"

definition callOnDragEnd :: "'id DragEndMeta \<Rightarrow> ('id, 'el) ListState \<Rightarrow> ('id, 'el) ListState" where
  [item_defs]: "callOnDragEnd m = emit (CallOnDragEnd m)"

definition callOnStackGroup ::
  "'el ListContext \<Rightarrow> 'id StackGroupMeta \<Rightarrow> ('id, 'el) ListState \<Rightarrow> ('id, 'el) ListState" where
  [item_defs]: "callOnStackGroup lc m s = (if lc_onStackGroup lc then emit (CallOnStackGroup m) s else s)"

text \<open>Modelled from the spec: \<open>getNodeMeta\<close> of \<open>./shared\<close> is not among the sources. It
  "packages the element's current bounding geometry with the supplied identity fields".\<close>

definition getNodeMeta ::
  "'el \<Rightarrow> 'id \<Rightarrow> 'id option \<Rightarrow> 'id list \<Rightarrow> int \<Rightarrow> bool \<Rightarrow> ('id, 'el) NodeMeta" where
  [item_defs]: "getNodeMeta element ident groupIdent ancestors idx isGrp =
     \<lparr>nm_identifier = ident, nm_groupIdentifier = groupIdent, nm_ancestorIdentifiers = ancestors,
      nm_index = idx, nm_isGroup = isGrp, nm_boundingGeometry = element\<rparr>"

text \<open>Modelled from the spec: \<open>checkIsAncestorItem\<close> of \<open>./item\<close> is not among the sources.
  It is "true if candidateIdentifier appears anywhere in the ordered ancestor list", and the
  ancestor chain is the "ordered list of group identifiers from root to immediate parent".
  Every caller hands over a list built at line 48, whose last entry is the item itself and
  not one of its ancestors: the ancestors are the entries before the last. The handlers test
  for the item itself apart (lines 133 and 265).\<close>

definition checkIsAncestorItem :: "'id \<Rightarrow> 'id list \<Rightarrow> bool" where
  [item_defs]: "checkIsAncestorItem candidateIdentifier ancestorIdentifiersOfChild =
     (candidateIdentifier \<in> set (butlast ancestorIdentifiersOfChild))"

text \<open>Modelled from the spec: \<open>getDropLinePositionItemIndex\<close> of \<open>./item\<close> is not among the
  sources. "Direction before/after maps directly to hoveredIndex / hoveredIndex + 1 before
  shift correction"; the correction by one slot applies "if dragging and hovered items share
  the same group and the dragging item's current index is lower than the hovered index".\<close>

definition getDropLinePositionItemIndex ::
  "DropLineDirection \<Rightarrow> int \<Rightarrow> 'id option \<Rightarrow> int \<Rightarrow> 'id option \<Rightarrow> int" where
  "getDropLinePositionItemIndex dropLineDirection draggingIndex draggingGroupIdentifier
      hoveredIndex hoveredGroupIdentifier =
     (let nextIndex = (case dropLineDirection of Before \<Rightarrow> hoveredIndex | After \<Rightarrow> hoveredIndex + 1)
      in if draggingGroupIdentifier = hoveredGroupIdentifier \<and> draggingIndex < hoveredIndex
         then nextIndex - 1 else nextIndex)"

section \<open>The component's derived values\<close>

text \<open>Lines 48 to 51 of the source.\<close>

definition ancestorIdentifiers :: "'id GroupContext \<Rightarrow> 'id Props \<Rightarrow> 'id list" where
  [item_defs]: "ancestorIdentifiers gc p = gc_ancestorIdentifiers gc @ [p_identifier p]"

definition isGroup :: "'id Props \<Rightarrow> bool" where
  [item_defs]: "isGroup p = (case p_isGroup p of Some b \<Rightarrow> b | None \<Rightarrow> False)"

text \<open>\<open>(listContext.isDisabled || props.isLocked) ?? false\<close>: the left operand of \<open>||\<close> wins
  when it is \<open>true\<close>; otherwise the right one, with \<open>undefined\<close> read as \<open>false\<close>.\<close>

definition isLocked :: "'el ListContext \<Rightarrow> 'id Props \<Rightarrow> bool" where
  [item_defs]: "isLocked lc p =
     (case (if lc_isDisabled lc = Some True then Some True else p_isLocked p) of
        Some b \<Rightarrow> b | None \<Rightarrow> False)"

definition isLonley :: "'id Props \<Rightarrow> bool" where
  [item_defs]: "isLonley p = (case p_isLonely p of Some b \<Rightarrow> b | None \<Rightarrow> False)"

text \<open>The mount effect and its cleanup (lines 55 to 61) register the item in the enclosing
  group's set. A group provides its own context to what it renders (line 350); an item that
  is not a group returns its content without a provider (line 347), so what it renders sees
  the enclosing group's context.\<close>

definition registerChild :: "'id Props \<Rightarrow> 'id GroupContext \<Rightarrow> 'id GroupContext" where
  "registerChild p gc =
     (if p_identifier p \<in> set (gc_childIdentifiers gc) then gc
      else gc\<lparr>gc_childIdentifiers := gc_childIdentifiers gc @ [p_identifier p]\<rparr>)"

definition unregisterChild :: "'id Props \<Rightarrow> 'id GroupContext \<Rightarrow> 'id GroupContext" where
  "unregisterChild p gc = gc\<lparr>gc_childIdentifiers := removeAll (p_identifier p) (gc_childIdentifiers gc)\<rparr>"

definition providedGroupContext :: "'id GroupContext \<Rightarrow> 'id Props \<Rightarrow> 'id list \<Rightarrow> 'id GroupContext" where
  "providedGroupContext gc p childIdentifiers =
     (if \<not> isGroup p then gc
      else \<lparr>gc_identifier = Some (p_identifier p), gc_ancestorIdentifiers = ancestorIdentifiers gc p,
             gc_childIdentifiers = childIdentifiers\<rparr>)"

text \<open>The group context below a chain of nested items, outermost first, each given with its
  registered children.\<close>

fun nestedGroupContext :: "'id GroupContext \<Rightarrow> ('id Props \<times> 'id list) list \<Rightarrow> 'id GroupContext" where
  "nestedGroupContext gc [] = gc"
| "nestedGroupContext gc ((g, childIdentifiers) # inner) =
     nestedGroupContext (providedGroupContext gc g childIdentifiers) inner"

section \<open>The handlers\<close>

definition onDragStart ::
  "'el ListContext \<Rightarrow> 'id GroupContext \<Rightarrow> 'id Props \<Rightarrow> 'el \<Rightarrow> ('id, 'el) ListState \<Rightarrow> ('id, 'el) ListState" where
  [item_defs]: "onDragStart lc gc p element s =
     (let s1 = setBodyStyle (lc_draggingCursorStyle lc) s;
          s2 = initializeGhostElementStyle element (lc_ghostWrapperElementRef lc)
                 (lc_itemSpacing lc) (lc_direction lc) s1;
          nodeMeta = getNodeMeta element (p_identifier p) (gc_identifier gc)
                       (ancestorIdentifiers gc p) (p_index p) (isGroup p);
          s3 = setDraggingNodeMeta (Some nodeMeta) s2
      in callOnDragStart lc
           \<lparr>ds_identifier = nm_identifier nodeMeta, ds_groupIdentifier = nm_groupIdentifier nodeMeta,
            ds_index = nm_index nodeMeta, ds_isGroup = nm_isGroup nodeMeta\<rparr> s3)"

definition onDragEnd ::
  "'el ListContext \<Rightarrow> 'id GroupContext \<Rightarrow> 'id Props \<Rightarrow> ('id, 'el) ListState \<Rightarrow> ('id, 'el) ListState" where
  [item_defs]: "onDragEnd lc gc p s =
     (let s1 = clearBodyStyle s;
          s2 = clearGhostElementStyle (lc_ghostWrapperElementRef lc) s1;
          destinationMeta = destinationMetaRef s2;
          s3 = callOnDragEnd
                 \<lparr>de_identifier = p_identifier p, de_groupIdentifier = gc_identifier gc,
                  de_index = p_index p, de_isGroup = isGroup p,
                  de_nextGroupIdentifier =
                    (case destinationMeta of Some d \<Rightarrow> dm_groupIdentifier d | None \<Rightarrow> gc_identifier gc),
                  de_nextIndex =
                    (case destinationMeta of Some d \<Rightarrow> dm_index d | None \<Rightarrow> Some (p_index p))\<rparr> s2;
          s4 = setDraggingNodeMeta None s3;
          s5 = setIsVisibleDropLineElement False s4;
          s6 = setStackedGroupIdentifier None s5;
          s7 = writeHoveredNodeMetaRef None s6
      in writeDestinationMetaRef None s7)"

definition onHover ::
  "'id GroupContext \<Rightarrow> 'id Props \<Rightarrow> 'el \<Rightarrow> ('id, 'el) ListState \<Rightarrow> ('id, 'el) ListState" where
  [item_defs]: "onHover gc p element s =
     (let isNeededInitialization =
            (case draggingNodeMeta s of
               None \<Rightarrow> True
             | Some d \<Rightarrow> p_identifier p = nm_identifier d
                         \<or> checkIsAncestorItem (nm_identifier d) (ancestorIdentifiers gc p))
      in if isNeededInitialization
         then writeDestinationMetaRef None
                (writeHoveredNodeMetaRef None (setIsVisibleDropLineElement False s))
         else writeHoveredNodeMetaRef
                (Some (getNodeMeta element (p_identifier p) (gc_identifier gc)
                         (ancestorIdentifiers gc p) (p_index p) (isGroup p)))
                (setIsVisibleDropLineElement True s))"

definition onMoveForStackableGroup ::
  "'el ListContext \<Rightarrow> 'id GroupContext \<Rightarrow> 'id Props \<Rightarrow> ('id, 'el) NodeMeta
     \<Rightarrow> ('id, 'el) ListState \<Rightarrow> ('id, 'el) ListState" where
  [item_defs]: "onMoveForStackableGroup lc gc p hovered s =
     (let s1 = setIsVisibleDropLineElement False s;
          s2 = setStackedGroupIdentifier (Some (p_identifier p)) s1;
          s3 = writeDestinationMetaRef
                 (Some \<lparr>dm_groupIdentifier = Some (p_identifier p), dm_index = None\<rparr>) s2
      in callOnStackGroup lc
           \<lparr>sg_identifier = p_identifier p, sg_groupIdentifier = gc_identifier gc,
            sg_index = p_index p, sg_isGroup = isGroup p,
            sg_nextGroupIdentifier = Some (nm_identifier hovered)\<rparr> s3)"

definition onMoveForItems ::
  "'el ListContext \<Rightarrow> ('id, 'el) Shared \<Rightarrow> 'id GroupContext \<Rightarrow> 'id Props
     \<Rightarrow> ('id, 'el) NodeMeta \<Rightarrow> ('id, 'el) NodeMeta \<Rightarrow> XY
     \<Rightarrow> ('id, 'el) ListState \<Rightarrow> ('id, 'el) ListState" where
  [item_defs]: "onMoveForItems lc sh gc p dragging hovered absoluteXY s =
     (if isLonley p
      then writeDestinationMetaRef None (setIsVisibleDropLineElement False s)
      else
        let s1 = (if nm_index dragging \<noteq> nm_index hovered
                  then setIsVisibleDropLineElement True s else s);
            s2 = setDropLineElementStyle (lc_dropLineElementRef lc) absoluteXY hovered
                   (lc_direction lc) s1;
            dropLineDirection = getDropLineDirectionFromXY sh absoluteXY hovered (lc_direction lc);
            nextIndex = getDropLinePositionItemIndex dropLineDirection
                          (nm_index dragging) (nm_groupIdentifier dragging)
                          (nm_index hovered) (nm_groupIdentifier hovered);
            destinationMeta = destinationMetaRef s2;
            isComeFromStackedGroup =
              (case destinationMeta of
                 None \<Rightarrow> False
               | Some d \<Rightarrow> dm_groupIdentifier d \<noteq> None \<and> dm_index d = None);
            s3 = (if isComeFromStackedGroup
                  then callOnStackGroup lc
                         \<lparr>sg_identifier = p_identifier p, sg_groupIdentifier = gc_identifier gc,
                          sg_index = p_index p, sg_isGroup = isGroup p,
                          sg_nextGroupIdentifier = None\<rparr> s2
                  else s2);
            s4 = setStackedGroupIdentifier None s3
        in writeDestinationMetaRef
             (Some \<lparr>dm_groupIdentifier = gc_identifier gc, dm_index = Some nextIndex\<rparr>) s4)"

definition onMove ::
  "'el ListContext \<Rightarrow> ('id, 'el) Shared \<Rightarrow> 'id GroupContext \<Rightarrow> 'id Props \<Rightarrow> 'id list \<Rightarrow> XY
     \<Rightarrow> ('id, 'el) ListState \<Rightarrow> ('id, 'el) ListState" where
  [item_defs]: "onMove lc sh gc p childIdentifiers absoluteXY s =
     (case draggingNodeMeta s of
        None \<Rightarrow> s
      | Some dragging \<Rightarrow>
         (case hoveredNodeMetaRef s of
            None \<Rightarrow> s
          | Some hovered \<Rightarrow>
             (let hasNoItems = (length childIdentifiers = 0)
              in if isGroup p \<and> hasNoItems
                    \<and> checkIsInStackableArea sh absoluteXY hovered
                         (lc_stackableAreaThreshold lc) (lc_direction lc)
                 then onMoveForStackableGroup lc gc p hovered s
                 else onMoveForItems lc sh gc p dragging hovered absoluteXY s)))"

text \<open>The gesture bindings (lines 248 to 296). \<open>binder_onHover\<close> and
  \<open>draggableBinder_onDragStart\<close> also return the methods called on the event.\<close>

definition binder_onHover ::
  "'id GroupContext \<Rightarrow> 'id Props \<Rightarrow> 'el Event option
     \<Rightarrow> ('id, 'el) ListState \<Rightarrow> EventAction list \<times> ('id, 'el) ListState" where
  [item_defs]: "binder_onHover gc p event s =
     (if draggingNodeMeta s = None then ([], s)
      else case (case event of None \<Rightarrow> None | Some e \<Rightarrow> currentTarget e) of
             None \<Rightarrow> ([], s)
           | Some element \<Rightarrow> ([StopPropagation], onHover gc p element s))"

definition binder_onMove ::
  "'el ListContext \<Rightarrow> ('id, 'el) Shared \<Rightarrow> 'id GroupContext \<Rightarrow> 'id Props \<Rightarrow> 'id list \<Rightarrow> XY
     \<Rightarrow> ('id, 'el) ListState \<Rightarrow> ('id, 'el) ListState" where
  [item_defs]: "binder_onMove lc sh gc p childIdentifiers xy s =
     (case draggingNodeMeta s of
        None \<Rightarrow> s
      | Some dragging \<Rightarrow>
         (let hasItems = (length childIdentifiers > 0);
              hoveredNodeAncestors =
                (case hoveredNodeMetaRef s of Some h \<Rightarrow> nm_ancestorIdentifiers h | None \<Rightarrow> [])
          in if hasItems \<and> checkIsAncestorItem (p_identifier p) hoveredNodeAncestors then s
             else if p_identifier p = nm_identifier dragging then s
             else if checkIsAncestorItem (nm_identifier dragging) (ancestorIdentifiers gc p) then s
             else onMove lc sh gc p childIdentifiers xy s))"

definition draggableBinder_onDragStart ::
  "'el ListContext \<Rightarrow> 'id GroupContext \<Rightarrow> 'id Props \<Rightarrow> 'el Event
     \<Rightarrow> ('id, 'el) ListState \<Rightarrow> EventAction list \<times> ('id, 'el) ListState" where
  [item_defs]: "draggableBinder_onDragStart lc gc p event s =
     (case currentTarget event of
        None \<Rightarrow> ([], s)
      | Some element \<Rightarrow>
          if isLocked lc p then ([Persist, StopPropagation], s)
          else ([Persist, StopPropagation], onDragStart lc gc p element s))"

definition draggableBinder_onDrag ::
  "'el ListContext \<Rightarrow> 'id Props \<Rightarrow> bool \<Rightarrow> XY \<Rightarrow> ('id, 'el) ListState \<Rightarrow> ('id, 'el) ListState" where
  [item_defs]: "draggableBinder_onDrag lc p down movement s =
     (if isLocked lc p then s
      else if \<not> down then s
      else moveGhostElement (lc_ghostWrapperElementRef lc) movement s)"

definition draggableBinder_onDragEnd ::
  "'el ListContext \<Rightarrow> 'id GroupContext \<Rightarrow> 'id Props \<Rightarrow> ('id, 'el) ListState \<Rightarrow> ('id, 'el) ListState" where
  [item_defs]: "draggableBinder_onDragEnd lc gc p s =
     (if isLocked lc p then s else onDragEnd lc gc p s)"

section \<open>A sample list\<close>

text \<open>A root list with a plain item 1, an empty group 2, a lonely item 3 and a group 4
  that holds item 5; elements are numbered. The sample geometry puts the stackable band at
  25 to 75 on the second coordinate and the midpoint at 50.\<close>

named_theorems ex_defs

definition ex_lc :: "nat ListContext" where
  [ex_defs]: "ex_lc = \<lparr>lc_isDisabled = None, lc_direction = Vertical, lc_itemSpacing = 8,
     lc_stackableAreaThreshold = 1 / 2, lc_draggingCursorStyle = None,
     lc_ghostWrapperElementRef = Some 100, lc_dropLineElementRef = Some 101,
     lc_onDragStart = True, lc_onStackGroup = True\<rparr>"

definition ex_sh :: "(nat, nat) Shared" where
  [ex_defs]: "ex_sh = \<lparr>getDropLineDirectionFromXY = (\<lambda>xy h d. if snd xy < 50 then Before else After),
     checkIsInStackableArea = (\<lambda>xy h t d. 25 \<le> snd xy \<and> snd xy \<le> 75)\<rparr>"

definition ex_root :: "nat GroupContext" where
  [ex_defs]: "ex_root = \<lparr>gc_identifier = None, gc_ancestorIdentifiers = [],
     gc_childIdentifiers = [1, 2, 3, 4]\<rparr>"

definition ex_a :: "nat Props" where
  [ex_defs]: "ex_a = \<lparr>p_identifier = 1, p_index = 0, p_isGroup = None, p_isLocked = None,
     p_isLonely = None\<rparr>"

definition ex_g :: "nat Props" where
  [ex_defs]: "ex_g = \<lparr>p_identifier = 2, p_index = 1, p_isGroup = Some True, p_isLocked = None,
     p_isLonely = None\<rparr>"

definition ex_lonely :: "nat Props" where
  [ex_defs]: "ex_lonely = \<lparr>p_identifier = 3, p_index = 2, p_isGroup = None, p_isLocked = None,
     p_isLonely = Some True\<rparr>"

definition ex_g4 :: "nat Props" where
  [ex_defs]: "ex_g4 = \<lparr>p_identifier = 4, p_index = 3, p_isGroup = Some True, p_isLocked = None,
     p_isLonely = None\<rparr>"

definition ex_c :: "nat Props" where
  [ex_defs]: "ex_c = \<lparr>p_identifier = 5, p_index = 0, p_isGroup = None, p_isLocked = None,
     p_isLonely = None\<rparr>"

definition ex_in_g4 :: "nat GroupContext" where
  [ex_defs]: "ex_in_g4 = providedGroupContext ex_root ex_g4 [5]"

definition ex_idle :: "(nat, nat) ListState" where
  [ex_defs]: "ex_idle = \<lparr>draggingNodeMeta = None, isVisibleDropLineElement = False,
     stackedGroupIdentifier = None, hoveredNodeMetaRef = None, destinationMetaRef = None,
     trace = []\<rparr>"

text \<open>Item 1 is picked up; the pointer enters the empty group 2 and moves inside its band;
  then it enters the lonely item 3.\<close>

definition ex_dragging :: "(nat, nat) ListState" where
  [ex_defs]: "ex_dragging =
     snd (draggableBinder_onDragStart ex_lc ex_root ex_a \<lparr>currentTarget = Some 11\<rparr> ex_idle)"

definition ex_hovering :: "(nat, nat) ListState" where
  [ex_defs]: "ex_hovering =
     snd (binder_onHover ex_root ex_g (Some \<lparr>currentTarget = Some 12\<rparr>) ex_dragging)"

definition ex_stacked :: "(nat, nat) ListState" where
  [ex_defs]: "ex_stacked = binder_onMove ex_lc ex_sh ex_root ex_g [] (10, 50) ex_hovering"

definition ex_over_lonely :: "(nat, nat) ListState" where
  [ex_defs]: "ex_over_lonely =
     snd (binder_onHover ex_root ex_lonely (Some \<lparr>currentTarget = Some 13\<rparr>) ex_stacked)"





section \<open>The sample run\<close>

lemma ex_dragging_eq:
  "ex_dragging =
     \<lparr>draggingNodeMeta = Some \<lparr>nm_identifier = 1, nm_groupIdentifier = None,
        nm_ancestorIdentifiers = [1], nm_index = 0, nm_isGroup = False, nm_boundingGeometry = 11\<rparr>,
      isVisibleDropLineElement = False, stackedGroupIdentifier = None, hoveredNodeMetaRef = None,
      destinationMetaRef = None,
      trace = [SetBodyStyle None, InitializeGhostElementStyle 11 (Some 100) 8 Vertical,
        SetDraggingNodeMeta (Some \<lparr>nm_identifier = 1, nm_groupIdentifier = None,
          nm_ancestorIdentifiers = [1], nm_index = 0, nm_isGroup = False,
          nm_boundingGeometry = 11\<rparr>),
        CallOnDragStart \<lparr>ds_identifier = 1, ds_groupIdentifier = None, ds_index = 0,
          ds_isGroup = False\<rparr>]\<rparr>"
  by (simp add: ex_defs item_defs Let_def)

lemma ex_hovering_eq:
  "ex_hovering = ex_dragging
     \<lparr>isVisibleDropLineElement := True,
      hoveredNodeMetaRef := Some \<lparr>nm_identifier = 2, nm_groupIdentifier = None,
        nm_ancestorIdentifiers = [2], nm_index = 1, nm_isGroup = True, nm_boundingGeometry = 12\<rparr>,
      trace := trace ex_dragging @ [SetIsVisibleDropLineElement True,
        WriteHoveredNodeMetaRef (Some \<lparr>nm_identifier = 2, nm_groupIdentifier = None,
          nm_ancestorIdentifiers = [2], nm_index = 1, nm_isGroup = True,
          nm_boundingGeometry = 12\<rparr>)]\<rparr>"
  unfolding ex_hovering_def ex_dragging_eq
  by (simp add: ex_g_def ex_root_def item_defs Let_def)

lemma ex_stacked_eq:
  "ex_stacked = ex_hovering
     \<lparr>isVisibleDropLineElement := False, stackedGroupIdentifier := Some 2,
      destinationMetaRef := Some \<lparr>dm_groupIdentifier = Some 2, dm_index = None\<rparr>,
      trace := trace ex_hovering @ [SetIsVisibleDropLineElement False,
        SetStackedGroupIdentifier (Some 2),
        WriteDestinationMetaRef (Some \<lparr>dm_groupIdentifier = Some 2, dm_index = None\<rparr>),
        CallOnStackGroup \<lparr>sg_identifier = 2, sg_groupIdentifier = None, sg_index = 1,
          sg_isGroup = True, sg_nextGroupIdentifier = Some 2\<rparr>]\<rparr>"
  unfolding ex_stacked_def ex_hovering_eq ex_dragging_eq
  by (simp add: ex_g_def ex_root_def ex_lc_def ex_sh_def item_defs Let_def)

lemma ex_over_lonely_eq:
  "ex_over_lonely = ex_stacked
     \<lparr>isVisibleDropLineElement := True,
      hoveredNodeMetaRef := Some \<lparr>nm_identifier = 3, nm_groupIdentifier = None,
        nm_ancestorIdentifiers = [3], nm_index = 2, nm_isGroup = False, nm_boundingGeometry = 13\<rparr>,
      trace := trace ex_stacked @ [SetIsVisibleDropLineElement True,
        WriteHoveredNodeMetaRef (Some \<lparr>nm_identifier = 3, nm_groupIdentifier = None,
          nm_ancestorIdentifiers = [3], nm_index = 2, nm_isGroup = False,
          nm_boundingGeometry = 13\<rparr>)]\<rparr>"
  unfolding ex_over_lonely_def ex_stacked_eq ex_hovering_eq ex_dragging_eq
  by (simp add: ex_lonely_def ex_root_def item_defs Let_def)


section \<open>Drag end\<close>

text \<open>C4: a drag-end on an unlocked item whose destination was never set reports the origin
  as the destination: the payload of the drag-end callback has the item's own group as
  \<open>nextGroupIdentifier\<close> and its own index as \<open>nextIndex\<close>.\<close>

theorem dragEnd_without_destination_reports_origin:
  assumes "\<not> isLocked lc p" and "destinationMetaRef s = None"
  shows "trace (draggableBinder_onDragEnd lc gc p s) =
           trace s @ [ClearBodyStyle, ClearGhostElementStyle (lc_ghostWrapperElementRef lc),
             CallOnDragEnd \<lparr>de_identifier = p_identifier p, de_groupIdentifier = gc_identifier gc,
               de_index = p_index p, de_isGroup = isGroup p,
               de_nextGroupIdentifier = gc_identifier gc, de_nextIndex = Some (p_index p)\<rparr>,
             SetDraggingNodeMeta None, SetIsVisibleDropLineElement False,
             SetStackedGroupIdentifier None, WriteHoveredNodeMetaRef None,
             WriteDestinationMetaRef None]"
  using assms by (simp add: item_defs Let_def)

theorem dragEnd_without_destination_reports_origin_witness:
  "\<not> isLocked ex_lc ex_a \<and> destinationMetaRef ex_dragging = None
   \<and> trace (draggableBinder_onDragEnd ex_lc ex_root ex_a ex_dragging) =
       trace ex_dragging @ [ClearBodyStyle, ClearGhostElementStyle (Some 100),
         CallOnDragEnd \<lparr>de_identifier = 1, de_groupIdentifier = None, de_index = 0,
           de_isGroup = False, de_nextGroupIdentifier = None, de_nextIndex = Some 0\<rparr>,
         SetDraggingNodeMeta None, SetIsVisibleDropLineElement False,
         SetStackedGroupIdentifier None, WriteHoveredNodeMetaRef None,
         WriteDestinationMetaRef None]"
proof -
  have locked: "\<not> isLocked ex_lc ex_a"
    by (simp add: isLocked_def ex_lc_def ex_a_def)
  have dest: "destinationMetaRef ex_dragging = None"
    by (simp add: ex_dragging_eq)
  show ?thesis
    using dragEnd_without_destination_reports_origin [OF locked dest, of ex_root] locked dest
    by (simp add: ex_lc_def ex_a_def ex_root_def isGroup_def)
qed

text \<open>C5: a drag-end on an unlocked item resets the transient list state: no dragging item,
  no hovered item, no destination, no stacked group, and the drop line not visible.\<close>

theorem dragEnd_resets_transient_state:
  assumes "\<not> isLocked lc p"
  shows "draggingNodeMeta (draggableBinder_onDragEnd lc gc p s) = None
       \<and> hoveredNodeMetaRef (draggableBinder_onDragEnd lc gc p s) = None
       \<and> destinationMetaRef (draggableBinder_onDragEnd lc gc p s) = None
       \<and> stackedGroupIdentifier (draggableBinder_onDragEnd lc gc p s) = None
       \<and> \<not> isVisibleDropLineElement (draggableBinder_onDragEnd lc gc p s)"
  using assms by (simp add: item_defs Let_def)

theorem dragEnd_resets_transient_state_witness:
  "\<not> isLocked ex_lc ex_a
   \<and> stackedGroupIdentifier ex_stacked = Some 2
   \<and> draggingNodeMeta (draggableBinder_onDragEnd ex_lc ex_root ex_a ex_stacked) = None
   \<and> hoveredNodeMetaRef (draggableBinder_onDragEnd ex_lc ex_root ex_a ex_stacked) = None
   \<and> destinationMetaRef (draggableBinder_onDragEnd ex_lc ex_root ex_a ex_stacked) = None
   \<and> stackedGroupIdentifier (draggableBinder_onDragEnd ex_lc ex_root ex_a ex_stacked) = None
   \<and> \<not> isVisibleDropLineElement (draggableBinder_onDragEnd ex_lc ex_root ex_a ex_stacked)"
proof -
  have locked: "\<not> isLocked ex_lc ex_a"
    by (simp add: isLocked_def ex_lc_def ex_a_def)
  have stacked: "stackedGroupIdentifier ex_stacked = Some 2"
    by (simp add: ex_stacked_eq)
  show ?thesis
    using dragEnd_resets_transient_state [OF locked, of ex_root ex_stacked] locked stacked
    by simp
qed

section \<open>Hover and move guards\<close>




section \<open>Stack or reorder\<close>

lemma stack_path_differs_from_reorder_path:
  "onMoveForStackableGroup lc gc p h s \<noteq> onMoveForItems lc sh gc p d h xy s"
proof
  assume "onMoveForStackableGroup lc gc p h s = onMoveForItems lc sh gc p d h xy s"
  then have "trace (onMoveForStackableGroup lc gc p h s) = trace (onMoveForItems lc sh gc p d h xy s)"
    by simp
  then show False
    by (simp add: item_defs Let_def split: if_splits)
qed

text \<open>C2: a move event on the hovered item (the node last recorded by its own hover handler;
  it is not the dragging item, the dragging item is not among its ancestors, and identifiers
  are unique, so neither is the item itself), with a stack callback supplied, passes the
  guards of the event handler and takes the stack path exactly when the hovered item is a
  group, its set of registered children is empty and the pointer is in the stackable area;
  otherwise, and only otherwise, it takes the reorder path. On the stack path the drop line is
  hidden, the stacked group and the destination's group are the hovered item's identifier,
  the destination's index is undefined, and the stack callback gets the hovered item's
  identifier as \<open>nextGroupIdentifier\<close>.\<close>

theorem stack_path_iff_three_conditions:
  assumes "draggingNodeMeta s = Some d" and "hoveredNodeMetaRef s = Some h"
      and "nm_identifier h = p_identifier p" and "nm_isGroup h = isGroup p"
      and "nm_ancestorIdentifiers h = ancestorIdentifiers gc p"
      and "p_identifier p \<noteq> nm_identifier d"
      and "nm_identifier d \<notin> set (gc_ancestorIdentifiers gc)"
      and "p_identifier p \<notin> set (gc_ancestorIdentifiers gc)"
      and "lc_onStackGroup lc"
  shows "binder_onMove lc sh gc p childIdentifiers xy s = onMove lc sh gc p childIdentifiers xy s
       \<and> ((binder_onMove lc sh gc p childIdentifiers xy s = onMoveForStackableGroup lc gc p h s)
            = (nm_isGroup h \<and> length childIdentifiers = 0
               \<and> checkIsInStackableArea sh xy h (lc_stackableAreaThreshold lc) (lc_direction lc)))
       \<and> ((binder_onMove lc sh gc p childIdentifiers xy s = onMoveForItems lc sh gc p d h xy s)
            = (\<not> (nm_isGroup h \<and> length childIdentifiers = 0
               \<and> checkIsInStackableArea sh xy h (lc_stackableAreaThreshold lc) (lc_direction lc))))
       \<and> (nm_isGroup h \<and> length childIdentifiers = 0
            \<and> checkIsInStackableArea sh xy h (lc_stackableAreaThreshold lc) (lc_direction lc)
          \<longrightarrow> binder_onMove lc sh gc p childIdentifiers xy s =
           s\<lparr>isVisibleDropLineElement := False,
             stackedGroupIdentifier := Some (nm_identifier h),
             destinationMetaRef := Some \<lparr>dm_groupIdentifier = Some (nm_identifier h), dm_index = None\<rparr>,
             trace := trace s @ [SetIsVisibleDropLineElement False,
               SetStackedGroupIdentifier (Some (nm_identifier h)),
               WriteDestinationMetaRef
                 (Some \<lparr>dm_groupIdentifier = Some (nm_identifier h), dm_index = None\<rparr>),
               CallOnStackGroup \<lparr>sg_identifier = p_identifier p, sg_groupIdentifier = gc_identifier gc,
                 sg_index = p_index p, sg_isGroup = isGroup p,
                 sg_nextGroupIdentifier = Some (nm_identifier h)\<rparr>]\<rparr>)"
proof -
  let ?c = "nm_isGroup h \<and> length childIdentifiers = 0
     \<and> checkIsInStackableArea sh xy h (lc_stackableAreaThreshold lc) (lc_direction lc)"
  have not_above: "\<not> checkIsAncestorItem (p_identifier p) (nm_ancestorIdentifiers h)"
    using assms(5,8) by (simp add: checkIsAncestorItem_def ancestorIdentifiers_def)
  have not_below: "\<not> checkIsAncestorItem (nm_identifier d) (ancestorIdentifiers gc p)"
    using assms(7) by (simp add: checkIsAncestorItem_def ancestorIdentifiers_def)
  have event: "binder_onMove lc sh gc p childIdentifiers xy s =
      onMove lc sh gc p childIdentifiers xy s"
    using assms(1,2,6) not_above not_below by (simp add: binder_onMove_def Let_def)
  have branch: "onMove lc sh gc p childIdentifiers xy s =
      (if ?c then onMoveForStackableGroup lc gc p h s else onMoveForItems lc sh gc p d h xy s)"
    using assms(1,2,4) by (simp add: onMove_def)
  have diff: "onMoveForStackableGroup lc gc p h s \<noteq> onMoveForItems lc sh gc p d h xy s"
    by (rule stack_path_differs_from_reorder_path)
  have one: "(onMove lc sh gc p childIdentifiers xy s = onMoveForStackableGroup lc gc p h s) = ?c"
    using diff by (simp add: branch)
  have two: "(onMove lc sh gc p childIdentifiers xy s = onMoveForItems lc sh gc p d h xy s) = (\<not> ?c)"
    using diff by (simp add: branch)
  have three: "onMoveForStackableGroup lc gc p h s =
           s\<lparr>isVisibleDropLineElement := False,
             stackedGroupIdentifier := Some (nm_identifier h),
             destinationMetaRef := Some \<lparr>dm_groupIdentifier = Some (nm_identifier h), dm_index = None\<rparr>,
             trace := trace s @ [SetIsVisibleDropLineElement False,
               SetStackedGroupIdentifier (Some (nm_identifier h)),
               WriteDestinationMetaRef
                 (Some \<lparr>dm_groupIdentifier = Some (nm_identifier h), dm_index = None\<rparr>),
               CallOnStackGroup \<lparr>sg_identifier = p_identifier p, sg_groupIdentifier = gc_identifier gc,
                 sg_index = p_index p, sg_isGroup = isGroup p,
                 sg_nextGroupIdentifier = Some (nm_identifier h)\<rparr>]\<rparr>"
    using assms(3,9) by (simp add: item_defs Let_def)
  have four: "?c \<longrightarrow> onMove lc sh gc p childIdentifiers xy s = onMoveForStackableGroup lc gc p h s"
    using branch by (simp del: length_0_conv)
  from one two three four show ?thesis
    unfolding event by simp
qed

theorem stack_path_iff_three_conditions_witness:
  "draggingNodeMeta ex_hovering = Some \<lparr>nm_identifier = 1, nm_groupIdentifier = None,
       nm_ancestorIdentifiers = [1], nm_index = 0, nm_isGroup = False, nm_boundingGeometry = 11\<rparr>
   \<and> hoveredNodeMetaRef ex_hovering = Some \<lparr>nm_identifier = 2, nm_groupIdentifier = None,
       nm_ancestorIdentifiers = [2], nm_index = 1, nm_isGroup = True, nm_boundingGeometry = 12\<rparr>
   \<and> p_identifier ex_g = 2 \<and> isGroup ex_g \<and> ancestorIdentifiers ex_root ex_g = [2]
   \<and> gc_ancestorIdentifiers ex_root = [] \<and> lc_onStackGroup ex_lc
   \<and> checkIsInStackableArea ex_sh (10, 50) \<lparr>nm_identifier = 2, nm_groupIdentifier = None,
       nm_ancestorIdentifiers = [2], nm_index = 1, nm_isGroup = True, nm_boundingGeometry = 12\<rparr>
       (lc_stackableAreaThreshold ex_lc) (lc_direction ex_lc)
   \<and> binder_onMove ex_lc ex_sh ex_root ex_g [] (10, 50) ex_hovering =
       onMoveForStackableGroup ex_lc ex_root ex_g \<lparr>nm_identifier = 2, nm_groupIdentifier = None,
         nm_ancestorIdentifiers = [2], nm_index = 1, nm_isGroup = True, nm_boundingGeometry = 12\<rparr>
         ex_hovering
   \<and> stackedGroupIdentifier (binder_onMove ex_lc ex_sh ex_root ex_g [] (10, 50) ex_hovering) = Some 2
   \<and> destinationMetaRef (binder_onMove ex_lc ex_sh ex_root ex_g [] (10, 50) ex_hovering) =
       Some \<lparr>dm_groupIdentifier = Some 2, dm_index = None\<rparr>
   \<and> \<not> isVisibleDropLineElement (binder_onMove ex_lc ex_sh ex_root ex_g [] (10, 50) ex_hovering)
   \<and> binder_onMove ex_lc ex_sh ex_root ex_g [5] (10, 50) ex_hovering =
       onMoveForItems ex_lc ex_sh ex_root ex_g
         \<lparr>nm_identifier = 1, nm_groupIdentifier = None, nm_ancestorIdentifiers = [1], nm_index = 0,
          nm_isGroup = False, nm_boundingGeometry = 11\<rparr>
         \<lparr>nm_identifier = 2, nm_groupIdentifier = None, nm_ancestorIdentifiers = [2], nm_index = 1,
          nm_isGroup = True, nm_boundingGeometry = 12\<rparr> (10, 50) ex_hovering
   \<and> binder_onMove ex_lc ex_sh ex_root ex_g [] (10, 90) ex_hovering =
       onMoveForItems ex_lc ex_sh ex_root ex_g
         \<lparr>nm_identifier = 1, nm_groupIdentifier = None, nm_ancestorIdentifiers = [1], nm_index = 0,
          nm_isGroup = False, nm_boundingGeometry = 11\<rparr>
         \<lparr>nm_identifier = 2, nm_groupIdentifier = None, nm_ancestorIdentifiers = [2], nm_index = 1,
          nm_isGroup = True, nm_boundingGeometry = 12\<rparr> (10, 90) ex_hovering
   \<and> destinationMetaRef (binder_onMove ex_lc ex_sh ex_root ex_g [5] (10, 50) ex_hovering) =
       Some \<lparr>dm_groupIdentifier = None, dm_index = Some 1\<rparr>"
proof -
  let ?d = "\<lparr>nm_identifier = 1::nat, nm_groupIdentifier = None,
       nm_ancestorIdentifiers = [1], nm_index = 0, nm_isGroup = False, nm_boundingGeometry = 11::nat\<rparr>"
  let ?h = "\<lparr>nm_identifier = 2::nat, nm_groupIdentifier = None,
       nm_ancestorIdentifiers = [2], nm_index = 1, nm_isGroup = True, nm_boundingGeometry = 12::nat\<rparr>"
  have drag: "draggingNodeMeta ex_hovering = Some ?d"
    by (simp add: ex_hovering_eq ex_dragging_eq)
  have hov: "hoveredNodeMetaRef ex_hovering = Some ?h"
    by (simp add: ex_hovering_eq)
  have ident: "nm_identifier ?h = p_identifier ex_g"
    by (simp add: ex_g_def)
  have grp: "nm_isGroup ?h = isGroup ex_g"
    by (simp add: ex_g_def isGroup_def)
  have anc: "nm_ancestorIdentifiers ?h = ancestorIdentifiers ex_root ex_g"
    by (simp add: ancestorIdentifiers_def ex_root_def ex_g_def)
  have other: "p_identifier ex_g \<noteq> nm_identifier ?d"
    by (simp add: ex_g_def)
  have below: "nm_identifier ?d \<notin> set (gc_ancestorIdentifiers ex_root)"
    by (simp add: ex_root_def)
  have unique: "p_identifier ex_g \<notin> set (gc_ancestorIdentifiers ex_root)"
    by (simp add: ex_root_def)
  have cb: "lc_onStackGroup ex_lc"
    by (simp add: ex_lc_def)
  have area: "checkIsInStackableArea ex_sh (10, 50) ?h
      (lc_stackableAreaThreshold ex_lc) (lc_direction ex_lc)"
    by (simp add: ex_sh_def)
  have edge: "\<not> checkIsInStackableArea ex_sh (10, 90) ?h
      (lc_stackableAreaThreshold ex_lc) (lc_direction ex_lc)"
    by (simp add: ex_sh_def)
  note inst = stack_path_iff_three_conditions
      [OF drag hov ident grp anc other below unique cb, where sh = ex_sh]
  have taken: "binder_onMove ex_lc ex_sh ex_root ex_g [] (10, 50) ex_hovering =
      onMoveForStackableGroup ex_lc ex_root ex_g ?h ex_hovering"
    using inst [where childIdentifiers = "[]" and xy = "(10, 50)",
                THEN conjunct2, THEN conjunct1] area
    by simp
  have with_child: "binder_onMove ex_lc ex_sh ex_root ex_g [5] (10, 50) ex_hovering =
      onMoveForItems ex_lc ex_sh ex_root ex_g ?d ?h (10, 50) ex_hovering"
    using inst [where childIdentifiers = "[5]" and xy = "(10, 50)",
                THEN conjunct2, THEN conjunct2, THEN conjunct1]
    by simp
  have at_edge: "binder_onMove ex_lc ex_sh ex_root ex_g [] (10, 90) ex_hovering =
      onMoveForItems ex_lc ex_sh ex_root ex_g ?d ?h (10, 90) ex_hovering"
    using inst [where childIdentifiers = "[]" and xy = "(10, 90)",
                THEN conjunct2, THEN conjunct2, THEN conjunct1] edge
    by simp
  have result: "stackedGroupIdentifier (binder_onMove ex_lc ex_sh ex_root ex_g [] (10, 50) ex_hovering)
        = Some 2
      \<and> destinationMetaRef (binder_onMove ex_lc ex_sh ex_root ex_g [] (10, 50) ex_hovering) =
          Some \<lparr>dm_groupIdentifier = Some 2, dm_index = None\<rparr>
      \<and> \<not> isVisibleDropLineElement (binder_onMove ex_lc ex_sh ex_root ex_g [] (10, 50) ex_hovering)"
    using inst [where childIdentifiers = "[]" and xy = "(10, 50)",
                THEN conjunct2, THEN conjunct2, THEN conjunct2] area
    by simp
  have reorder: "destinationMetaRef (onMoveForItems ex_lc ex_sh ex_root ex_g ?d ?h (10, 50) ex_hovering)
      = Some \<lparr>dm_groupIdentifier = None, dm_index = Some 1\<rparr>"
    by (simp add: ex_g_def ex_root_def ex_sh_def ex_lc_def item_defs
        getDropLinePositionItemIndex_def Let_def)
  have facts: "p_identifier ex_g = 2 \<and> isGroup ex_g \<and> ancestorIdentifiers ex_root ex_g = [2]
      \<and> gc_ancestorIdentifiers ex_root = []"
    by (simp add: ex_g_def ex_root_def isGroup_def ancestorIdentifiers_def)
  show ?thesis
    unfolding with_child at_edge
    using drag hov facts cb area taken result reorder by simp
qed

section \<open>The resolved index\<close>

text \<open>C3: in the same group, from a lower index and with direction "after", the resolved index
  is the hovered index, one less than \<open>hoveredIndex + 1\<close>; across groups no slot is taken off;
  from index 0 onto index 3 in the same group, "after" resolves to 3. The reorder path of an
  item that is not lonely writes this index as the destination's index.\<close>

theorem after_in_same_group_from_lower_index_is_hovered_index:
  "(g = g' \<and> draggingIndex < hoveredIndex \<longrightarrow>
      getDropLinePositionItemIndex After draggingIndex g hoveredIndex g' = hoveredIndex)
   \<and> (g \<noteq> g' \<longrightarrow>
      getDropLinePositionItemIndex dir draggingIndex g hoveredIndex g' =
        (case dir of Before \<Rightarrow> hoveredIndex | After \<Rightarrow> hoveredIndex + 1))
   \<and> getDropLinePositionItemIndex After 0 g 3 g = 3
   \<and> (\<not> isLonley p \<longrightarrow>
      destinationMetaRef (onMoveForItems lc sh gc p d h xy s) =
        Some \<lparr>dm_groupIdentifier = gc_identifier gc,
              dm_index = Some (getDropLinePositionItemIndex
                (getDropLineDirectionFromXY sh xy h (lc_direction lc))
                (nm_index d) (nm_groupIdentifier d) (nm_index h) (nm_groupIdentifier h))\<rparr>)"
  by (simp add: getDropLinePositionItemIndex_def item_defs Let_def)

theorem after_in_same_group_from_lower_index_is_hovered_index_witness:
  "getDropLinePositionItemIndex After 0 (None :: nat option) 3 None = 3
   \<and> getDropLinePositionItemIndex After 0 (Some (7::nat)) 3 None = 4
   \<and> getDropLinePositionItemIndex Before 0 (Some (7::nat)) 3 None = 3
   \<and> \<not> isLonley ex_g
   \<and> destinationMetaRef (onMoveForItems ex_lc ex_sh ex_root ex_g
        \<lparr>nm_identifier = 1, nm_groupIdentifier = None, nm_ancestorIdentifiers = [1], nm_index = 0,
         nm_isGroup = False, nm_boundingGeometry = 11\<rparr>
        \<lparr>nm_identifier = 2, nm_groupIdentifier = None, nm_ancestorIdentifiers = [2], nm_index = 1,
         nm_isGroup = True, nm_boundingGeometry = 12\<rparr> (10, 90) ex_stacked) =
       Some \<lparr>dm_groupIdentifier = None, dm_index = Some 1\<rparr>"
proof -
  let ?d = "\<lparr>nm_identifier = 1::nat, nm_groupIdentifier = None,
       nm_ancestorIdentifiers = [1], nm_index = 0, nm_isGroup = False, nm_boundingGeometry = 11::nat\<rparr>"
  let ?h = "\<lparr>nm_identifier = 2::nat, nm_groupIdentifier = None,
       nm_ancestorIdentifiers = [2], nm_index = 1, nm_isGroup = True, nm_boundingGeometry = 12::nat\<rparr>"
  have a: "getDropLinePositionItemIndex After 0 (None :: nat option) 3 None = 3"
    using after_in_same_group_from_lower_index_is_hovered_index
            [of "None :: nat option" None 0 3 After ex_g ex_lc ex_sh ex_root ?d ?h "(10, 90)" ex_stacked]
    by simp
  have b: "getDropLinePositionItemIndex After 0 (Some (7::nat)) 3 None = 4"
    using after_in_same_group_from_lower_index_is_hovered_index
            [of "Some (7::nat)" None 0 3 After ex_g ex_lc ex_sh ex_root ?d ?h "(10, 90)" ex_stacked]
    by simp
  have c: "getDropLinePositionItemIndex Before 0 (Some (7::nat)) 3 None = 3"
    using after_in_same_group_from_lower_index_is_hovered_index
            [of "Some (7::nat)" None 0 3 Before ex_g ex_lc ex_sh ex_root ?d ?h "(10, 90)" ex_stacked]
    by simp
  have l: "\<not> isLonley ex_g"
    by (simp add: isLonley_def ex_g_def)
  have e: "destinationMetaRef (onMoveForItems ex_lc ex_sh ex_root ex_g ?d ?h (10, 90) ex_stacked) =
       Some \<lparr>dm_groupIdentifier = None, dm_index = Some 1\<rparr>"
    using after_in_same_group_from_lower_index_is_hovered_index
            [of "None :: nat option" None 0 3 After ex_g ex_lc ex_sh ex_root ?d ?h "(10, 90)" ex_stacked] l
    by (simp add: getDropLinePositionItemIndex_def ex_sh_def ex_root_def ex_lc_def)
  show ?thesis using a b c l e by simp
qed


section \<open>Leaving a stacked group\<close>

text \<open>C6, as stated, fails on a lonely item: after item 1 was stacked into the empty group 2
  the pointer enters the lonely item 3 and moves. The move takes the reorder path with a
  stack destination pending, and the log gains the hiding of the drop line and the clearing of
  the destination only: no un-stack callback, and the stacked group stays set.\<close>

theorem lonely_reorder_fires_no_unstack_counterexample:
  "destinationMetaRef ex_over_lonely = Some \<lparr>dm_groupIdentifier = Some 2, dm_index = None\<rparr>
   \<and> lc_onStackGroup ex_lc
   \<and> onMove ex_lc ex_sh ex_root ex_lonely [] (10, 90) ex_over_lonely =
       onMoveForItems ex_lc ex_sh ex_root ex_lonely
         \<lparr>nm_identifier = 1, nm_groupIdentifier = None, nm_ancestorIdentifiers = [1], nm_index = 0,
          nm_isGroup = False, nm_boundingGeometry = 11\<rparr>
         \<lparr>nm_identifier = 3, nm_groupIdentifier = None, nm_ancestorIdentifiers = [3], nm_index = 2,
          nm_isGroup = False, nm_boundingGeometry = 13\<rparr> (10, 90) ex_over_lonely
   \<and> trace (onMove ex_lc ex_sh ex_root ex_lonely [] (10, 90) ex_over_lonely) =
       trace ex_over_lonely @ [SetIsVisibleDropLineElement False, WriteDestinationMetaRef None]
   \<and> stackedGroupIdentifier (onMove ex_lc ex_sh ex_root ex_lonely [] (10, 90) ex_over_lonely) = Some 2"
  unfolding ex_over_lonely_eq ex_stacked_eq ex_hovering_eq ex_dragging_eq
  by (simp add: ex_lonely_def ex_root_def ex_lc_def ex_sh_def item_defs Let_def)

text \<open>C6, amended: on the reorder path of an item that is not lonely, with a stack callback
  supplied and a stack destination pending, the un-stack callback (\<open>nextGroupIdentifier\<close>
  undefined) is logged before the clearing of the stacked group and before the write of the
  new destination, which come last and in this order.\<close>

theorem unstack_callback_precedes_reorder_destination:
  assumes "draggingNodeMeta s = Some d" and "hoveredNodeMetaRef s = Some h"
      and "\<not> (isGroup p \<and> length childIdentifiers = 0
              \<and> checkIsInStackableArea sh xy h (lc_stackableAreaThreshold lc) (lc_direction lc))"
      and "\<not> isLonley p" and "lc_onStackGroup lc"
      and "destinationMetaRef s = Some \<lparr>dm_groupIdentifier = Some g, dm_index = None\<rparr>"
  shows "trace (onMove lc sh gc p childIdentifiers xy s) =
           trace s
           @ (if nm_index d \<noteq> nm_index h then [SetIsVisibleDropLineElement True] else [])
           @ [SetDropLineElementStyle (lc_dropLineElementRef lc) xy h (lc_direction lc),
              CallOnStackGroup \<lparr>sg_identifier = p_identifier p, sg_groupIdentifier = gc_identifier gc,
                sg_index = p_index p, sg_isGroup = isGroup p, sg_nextGroupIdentifier = None\<rparr>,
              SetStackedGroupIdentifier None,
              WriteDestinationMetaRef
                (Some \<lparr>dm_groupIdentifier = gc_identifier gc,
                       dm_index = Some (getDropLinePositionItemIndex
                         (getDropLineDirectionFromXY sh xy h (lc_direction lc))
                         (nm_index d) (nm_groupIdentifier d) (nm_index h) (nm_groupIdentifier h))\<rparr>)]
       \<and> stackedGroupIdentifier (onMove lc sh gc p childIdentifiers xy s) = None
       \<and> destinationMetaRef (onMove lc sh gc p childIdentifiers xy s) =
           Some \<lparr>dm_groupIdentifier = gc_identifier gc,
                 dm_index = Some (getDropLinePositionItemIndex
                   (getDropLineDirectionFromXY sh xy h (lc_direction lc))
                   (nm_index d) (nm_groupIdentifier d) (nm_index h) (nm_groupIdentifier h))\<rparr>"
proof -
  have branch: "onMove lc sh gc p childIdentifiers xy s = onMoveForItems lc sh gc p d h xy s"
    using assms(1,2,3) by (auto simp add: onMove_def)
  show ?thesis
    unfolding branch using assms(4,5,6)
    by (simp add: onMoveForItems_def callOnStackGroup_def setDropLineElementStyle_def
        setIsVisibleDropLineElement_def setStackedGroupIdentifier_def writeDestinationMetaRef_def
        emit_def Let_def)
qed

theorem unstack_callback_precedes_reorder_destination_witness:
  "draggingNodeMeta ex_stacked = Some \<lparr>nm_identifier = 1, nm_groupIdentifier = None,
       nm_ancestorIdentifiers = [1], nm_index = 0, nm_isGroup = False, nm_boundingGeometry = 11\<rparr>
   \<and> hoveredNodeMetaRef ex_stacked = Some \<lparr>nm_identifier = 2, nm_groupIdentifier = None,
       nm_ancestorIdentifiers = [2], nm_index = 1, nm_isGroup = True, nm_boundingGeometry = 12\<rparr>
   \<and> \<not> checkIsInStackableArea ex_sh (10, 90) \<lparr>nm_identifier = 2, nm_groupIdentifier = None,
       nm_ancestorIdentifiers = [2], nm_index = 1, nm_isGroup = True, nm_boundingGeometry = 12\<rparr>
       (lc_stackableAreaThreshold ex_lc) (lc_direction ex_lc)
   \<and> \<not> isLonley ex_g \<and> lc_onStackGroup ex_lc
   \<and> destinationMetaRef ex_stacked = Some \<lparr>dm_groupIdentifier = Some 2, dm_index = None\<rparr>
   \<and> trace (onMove ex_lc ex_sh ex_root ex_g [] (10, 90) ex_stacked) =
       trace ex_stacked
       @ [SetIsVisibleDropLineElement True,
          SetDropLineElementStyle (Some 101) (10, 90) \<lparr>nm_identifier = 2, nm_groupIdentifier = None,
            nm_ancestorIdentifiers = [2], nm_index = 1, nm_isGroup = True,
            nm_boundingGeometry = 12\<rparr> Vertical,
          CallOnStackGroup \<lparr>sg_identifier = 2, sg_groupIdentifier = None, sg_index = 1,
            sg_isGroup = True, sg_nextGroupIdentifier = None\<rparr>,
          SetStackedGroupIdentifier None,
          WriteDestinationMetaRef (Some \<lparr>dm_groupIdentifier = None, dm_index = Some 1\<rparr>)]"
proof -
  let ?d = "\<lparr>nm_identifier = 1::nat, nm_groupIdentifier = None,
       nm_ancestorIdentifiers = [1], nm_index = 0, nm_isGroup = False, nm_boundingGeometry = 11::nat\<rparr>"
  let ?h = "\<lparr>nm_identifier = 2::nat, nm_groupIdentifier = None,
       nm_ancestorIdentifiers = [2], nm_index = 1, nm_isGroup = True, nm_boundingGeometry = 12::nat\<rparr>"
  have drag: "draggingNodeMeta ex_stacked = Some ?d"
    by (simp add: ex_stacked_eq ex_hovering_eq ex_dragging_eq)
  have hov: "hoveredNodeMetaRef ex_stacked = Some ?h"
    by (simp add: ex_stacked_eq ex_hovering_eq)
  have area: "\<not> checkIsInStackableArea ex_sh (10, 90) ?h
      (lc_stackableAreaThreshold ex_lc) (lc_direction ex_lc)"
    by (simp add: ex_sh_def)
  then have cond: "\<not> (isGroup ex_g \<and> length ([] :: nat list) = 0
      \<and> checkIsInStackableArea ex_sh (10, 90) ?h
           (lc_stackableAreaThreshold ex_lc) (lc_direction ex_lc))"
    by simp
  have lonely: "\<not> isLonley ex_g"
    by (simp add: isLonley_def ex_g_def)
  have cb: "lc_onStackGroup ex_lc"
    by (simp add: ex_lc_def)
  have dest: "destinationMetaRef ex_stacked = Some \<lparr>dm_groupIdentifier = Some 2, dm_index = None\<rparr>"
    by (simp add: ex_stacked_eq)
  have "trace (onMove ex_lc ex_sh ex_root ex_g [] (10, 90) ex_stacked) =
       trace ex_stacked
       @ [SetIsVisibleDropLineElement True,
          SetDropLineElementStyle (Some 101) (10, 90) ?h Vertical,
          CallOnStackGroup \<lparr>sg_identifier = 2, sg_groupIdentifier = None, sg_index = 1,
            sg_isGroup = True, sg_nextGroupIdentifier = None\<rparr>,
          SetStackedGroupIdentifier None,
          WriteDestinationMetaRef (Some \<lparr>dm_groupIdentifier = None, dm_index = Some 1\<rparr>)]"
    using unstack_callback_precedes_reorder_destination
            [OF drag hov cond lonely cb dest, of ex_root, THEN conjunct1]
    by (simp add: ex_lc_def ex_sh_def ex_root_def ex_g_def isGroup_def
        getDropLinePositionItemIndex_def)
  then show ?thesis
    using drag hov area lonely cb dest by simp
qed

section \<open>Lonely items\<close>

text \<open>C7: on a lonely item the reorder path hides the drop line, clears the destination and
  returns: nothing else is written or called, so the item is never the destination of a
  reorder.\<close>

theorem lonely_item_is_never_a_reorder_target:
  assumes "isLonley p"
  shows "onMoveForItems lc sh gc p d h xy s =
           s\<lparr>isVisibleDropLineElement := False, destinationMetaRef := None,
             trace := trace s @ [SetIsVisibleDropLineElement False, WriteDestinationMetaRef None]\<rparr>
       \<and> (draggingNodeMeta s = Some d \<and> hoveredNodeMetaRef s = Some h
            \<and> \<not> (isGroup p \<and> length childIdentifiers = 0
                   \<and> checkIsInStackableArea sh xy h (lc_stackableAreaThreshold lc) (lc_direction lc))
          \<longrightarrow> onMove lc sh gc p childIdentifiers xy s =
                s\<lparr>isVisibleDropLineElement := False, destinationMetaRef := None,
                  trace := trace s @ [SetIsVisibleDropLineElement False,
                                      WriteDestinationMetaRef None]\<rparr>)"
  using assms by (simp add: item_defs Let_def)

theorem lonely_item_is_never_a_reorder_target_witness:
  "isLonley ex_lonely
   \<and> isVisibleDropLineElement ex_over_lonely
   \<and> destinationMetaRef ex_over_lonely = Some \<lparr>dm_groupIdentifier = Some 2, dm_index = None\<rparr>
   \<and> \<not> isVisibleDropLineElement (onMove ex_lc ex_sh ex_root ex_lonely [] (10, 90) ex_over_lonely)
   \<and> destinationMetaRef (onMove ex_lc ex_sh ex_root ex_lonely [] (10, 90) ex_over_lonely) = None"
proof -
  let ?d = "\<lparr>nm_identifier = 1::nat, nm_groupIdentifier = None,
       nm_ancestorIdentifiers = [1], nm_index = 0, nm_isGroup = False, nm_boundingGeometry = 11::nat\<rparr>"
  let ?h = "\<lparr>nm_identifier = 3::nat, nm_groupIdentifier = None,
       nm_ancestorIdentifiers = [3], nm_index = 2, nm_isGroup = False, nm_boundingGeometry = 13::nat\<rparr>"
  have lonely: "isLonley ex_lonely"
    by (simp add: isLonley_def ex_lonely_def)
  have drag: "draggingNodeMeta ex_over_lonely = Some ?d"
    by (simp add: ex_over_lonely_eq ex_stacked_eq ex_hovering_eq ex_dragging_eq)
  have hov: "hoveredNodeMetaRef ex_over_lonely = Some ?h"
    by (simp add: ex_over_lonely_eq)
  have plain: "\<not> isGroup ex_lonely"
    by (simp add: isGroup_def ex_lonely_def)
  have before: "isVisibleDropLineElement ex_over_lonely
      \<and> destinationMetaRef ex_over_lonely = Some \<lparr>dm_groupIdentifier = Some 2, dm_index = None\<rparr>"
    by (simp add: ex_over_lonely_eq ex_stacked_eq)
  have "onMove ex_lc ex_sh ex_root ex_lonely [] (10, 90) ex_over_lonely =
      ex_over_lonely\<lparr>isVisibleDropLineElement := False, destinationMetaRef := None,
        trace := trace ex_over_lonely @ [SetIsVisibleDropLineElement False,
                                         WriteDestinationMetaRef None]\<rparr>"
    using lonely_item_is_never_a_reorder_target
            [OF lonely, of ex_lc ex_sh ex_root ?d ?h "(10, 90)" ex_over_lonely "[]", THEN conjunct2]
          drag hov plain
    by simp
  then show ?thesis
    using lonely before by simp
qed


section \<open>Locked items\<close>

text \<open>C8: an item is locked exactly when the list is disabled or its own \<open>isLocked\<close> is true.
  On a locked item drag-start, continuous drag and drag-end leave the list state and the log
  as they were (drag-start has called \<open>persist\<close> and \<open>stopPropagation\<close> on the event by then),
  and the hover and move handlers do what they do on the same item unlocked.\<close>

theorem locked_item_is_not_draggable_but_stays_a_target:
  assumes "isLocked lc p"
  shows "isLocked lc p = (lc_isDisabled lc = Some True \<or> p_isLocked p = Some True)
       \<and> draggableBinder_onDragStart lc gc p event s =
           ((case currentTarget event of None \<Rightarrow> [] | Some element \<Rightarrow> [Persist, StopPropagation]), s)
       \<and> draggableBinder_onDrag lc p down movement s = s
       \<and> draggableBinder_onDragEnd lc gc p s = s
       \<and> \<not> isLocked (lc\<lparr>lc_isDisabled := None\<rparr>) (p\<lparr>p_isLocked := None\<rparr>)
       \<and> binder_onHover gc p hoverEvent s = binder_onHover gc (p\<lparr>p_isLocked := None\<rparr>) hoverEvent s
       \<and> binder_onMove lc sh gc p childIdentifiers xy s =
           binder_onMove (lc\<lparr>lc_isDisabled := None\<rparr>) sh gc (p\<lparr>p_isLocked := None\<rparr>)
             childIdentifiers xy s"
proof -
  have flag: "isLocked lc p = (lc_isDisabled lc = Some True \<or> p_isLocked p = Some True)"
    by (simp add: isLocked_def split: option.splits)
  have start: "draggableBinder_onDragStart lc gc p event s =
      ((case currentTarget event of None \<Rightarrow> [] | Some element \<Rightarrow> [Persist, StopPropagation]), s)"
    using assms by (simp add: draggableBinder_onDragStart_def split: option.splits)
  have drag: "draggableBinder_onDrag lc p down movement s = s"
    using assms by (simp add: draggableBinder_onDrag_def)
  have fin: "draggableBinder_onDragEnd lc gc p s = s"
    using assms by (simp add: draggableBinder_onDragEnd_def)
  have unlocked: "\<not> isLocked (lc\<lparr>lc_isDisabled := None\<rparr>) (p\<lparr>p_isLocked := None\<rparr>)"
    by (simp add: isLocked_def)
  have hover: "binder_onHover gc p hoverEvent s =
      binder_onHover gc (p\<lparr>p_isLocked := None\<rparr>) hoverEvent s"
    by (simp add: binder_onHover_def onHover_def ancestorIdentifiers_def isGroup_def
        split: option.splits)
  have move: "binder_onMove lc sh gc p childIdentifiers xy s =
      binder_onMove (lc\<lparr>lc_isDisabled := None\<rparr>) sh gc (p\<lparr>p_isLocked := None\<rparr>)
        childIdentifiers xy s"
  proof -
    have stack: "onMoveForStackableGroup lc gc p h s' =
        onMoveForStackableGroup (lc\<lparr>lc_isDisabled := None\<rparr>) gc (p\<lparr>p_isLocked := None\<rparr>) h s'"
      for h s'
      by (simp add: onMoveForStackableGroup_def callOnStackGroup_def isGroup_def Let_def)
    have items: "onMoveForItems lc sh gc p d h xy s' =
        onMoveForItems (lc\<lparr>lc_isDisabled := None\<rparr>) sh gc (p\<lparr>p_isLocked := None\<rparr>) d h xy s'"
      for d h s'
      by (simp add: onMoveForItems_def callOnStackGroup_def isGroup_def isLonley_def Let_def)
    have inner: "onMove lc sh gc p cs xy s =
        onMove (lc\<lparr>lc_isDisabled := None\<rparr>) sh gc (p\<lparr>p_isLocked := None\<rparr>) cs xy s"
      for cs
      by (simp add: onMove_def isGroup_def stack [symmetric] items [symmetric]
          split: option.splits)
    show ?thesis
      by (simp add: binder_onMove_def inner [symmetric] ancestorIdentifiers_def Let_def
          split: option.splits)
  qed
  from flag start drag fin unlocked hover move show ?thesis by blast
qed

theorem locked_item_is_not_draggable_but_stays_a_target_witness:
  "isLocked ex_lc (ex_g\<lparr>p_isLocked := Some True\<rparr>)
   \<and> draggableBinder_onDragStart ex_lc ex_root (ex_g\<lparr>p_isLocked := Some True\<rparr>)
        \<lparr>currentTarget = Some 12\<rparr> ex_idle = ([Persist, StopPropagation], ex_idle)
   \<and> draggableBinder_onDrag ex_lc (ex_g\<lparr>p_isLocked := Some True\<rparr>) True (3, 4) ex_idle = ex_idle
   \<and> draggableBinder_onDragEnd ex_lc ex_root (ex_g\<lparr>p_isLocked := Some True\<rparr>) ex_idle = ex_idle
   \<and> snd (binder_onHover ex_root (ex_g\<lparr>p_isLocked := Some True\<rparr>)
        (Some \<lparr>currentTarget = Some 12\<rparr>) ex_dragging) = ex_hovering
   \<and> binder_onMove ex_lc ex_sh ex_root (ex_g\<lparr>p_isLocked := Some True\<rparr>) [] (10, 50) ex_hovering
       = ex_stacked
   \<and> destinationMetaRef ex_stacked = Some \<lparr>dm_groupIdentifier = Some 2, dm_index = None\<rparr>"
proof -
  have locked: "isLocked ex_lc (ex_g\<lparr>p_isLocked := Some True\<rparr>)"
    by (simp add: isLocked_def)
  have same_p: "ex_g\<lparr>p_isLocked := Some True, p_isLocked := None\<rparr> = ex_g"
    by (simp add: ex_g_def)
  have same_lc: "ex_lc\<lparr>lc_isDisabled := None\<rparr> = ex_lc"
    by (simp add: ex_lc_def)
  have dest: "destinationMetaRef ex_stacked = Some \<lparr>dm_groupIdentifier = Some 2, dm_index = None\<rparr>"
    by (simp add: ex_stacked_eq)
  show ?thesis
    using locked_item_is_not_draggable_but_stays_a_target
            [OF locked, where gc = ex_root and event = "\<lparr>currentTarget = Some 12\<rparr>"
               and s = ex_idle and down = True and movement = "(3, 4)"]
          locked_item_is_not_draggable_but_stays_a_target
            [OF locked, where gc = ex_root and hoverEvent = "Some \<lparr>currentTarget = Some 12\<rparr>"
               and s = ex_dragging]
          locked_item_is_not_draggable_but_stays_a_target
            [OF locked, where gc = ex_root and s = ex_hovering and sh = ex_sh
               and childIdentifiers = "[]" and xy = "(10, 50)"]
          locked dest
    by (simp add: same_p same_lc ex_hovering_def ex_stacked_def)
qed

section \<open>The ancestor list of a node\<close>

lemma nestedGroupContext_chain:
  "gc_ancestorIdentifiers (nestedGroupContext gc items) =
     gc_ancestorIdentifiers gc
     @ map (\<lambda>g. p_identifier (fst g)) (filter (\<lambda>g. isGroup (fst g)) items)"
proof (induction items arbitrary: gc)
  case Nil
  show ?case by simp
next
  case (Cons g inner)
  obtain q cs where g: "g = (q, cs)" by (cases g)
  show ?case
    unfolding g by (simp add: Cons.IH providedGroupContext_def ancestorIdentifiers_def)
qed

text \<open>C9, as stated, fails: item 5 inside group 4 gets the ancestor list \<open>[4, 5]\<close> at
  drag-start and at hover, which holds its own identifier.\<close>

theorem ancestorIdentifiers_holds_own_identifier_counterexample:
  "gc_ancestorIdentifiers ex_in_g4 = [4] \<and> p_identifier ex_c = 5
   \<and> map_option nm_ancestorIdentifiers
        (draggingNodeMeta (snd (draggableBinder_onDragStart ex_lc ex_in_g4 ex_c
           \<lparr>currentTarget = Some 15\<rparr> ex_idle))) = Some [4, 5]
   \<and> map_option nm_ancestorIdentifiers
        (hoveredNodeMetaRef (snd (binder_onHover ex_in_g4 ex_c
           (Some \<lparr>currentTarget = Some 15\<rparr>) ex_dragging))) = Some [4, 5]"
  unfolding ex_dragging_eq
  by (simp add: ex_in_g4_def ex_g4_def ex_c_def ex_root_def ex_lc_def ex_idle_def
      providedGroupContext_def item_defs Let_def)

text \<open>C9, amended: the ancestor list of a node recorded at drag-start or at hover is the
  enclosing group context's list followed by the item's own identifier; the context's list
  below nested items is the root's list followed by the identifiers of the groups among
  them, outermost first (an item that is not a group provides no context).\<close>

theorem ancestorIdentifiers_is_group_chain_then_own_identifier:
  "(\<not> isLocked lc p \<and> currentTarget event = Some element \<longrightarrow>
      map_option nm_ancestorIdentifiers
        (draggingNodeMeta (snd (draggableBinder_onDragStart lc gc p event s)))
      = Some (gc_ancestorIdentifiers gc @ [p_identifier p]))
   \<and> (hoveredNodeMetaRef (onHover gc p element s) = Some m \<longrightarrow>
      nm_ancestorIdentifiers m = gc_ancestorIdentifiers gc @ [p_identifier p])
   \<and> gc_ancestorIdentifiers (nestedGroupContext rootContext items) =
       gc_ancestorIdentifiers rootContext
       @ map (\<lambda>g. p_identifier (fst g)) (filter (\<lambda>g. isGroup (fst g)) items)"
proof -
  have start: "\<not> isLocked lc p \<and> currentTarget event = Some element \<longrightarrow>
      map_option nm_ancestorIdentifiers
        (draggingNodeMeta (snd (draggableBinder_onDragStart lc gc p event s)))
      = Some (gc_ancestorIdentifiers gc @ [p_identifier p])"
    by (simp add: draggableBinder_onDragStart_def onDragStart_def setBodyStyle_def
        initializeGhostElementStyle_def setDraggingNodeMeta_def callOnDragStart_def emit_def
        getNodeMeta_def ancestorIdentifiers_def Let_def)
  have hover: "hoveredNodeMetaRef (onHover gc p element s) = Some m \<longrightarrow>
      nm_ancestorIdentifiers m = gc_ancestorIdentifiers gc @ [p_identifier p]"
    by (auto simp add: onHover_def writeHoveredNodeMetaRef_def writeDestinationMetaRef_def
        setIsVisibleDropLineElement_def emit_def getNodeMeta_def ancestorIdentifiers_def Let_def
        split: if_splits)
  from start hover nestedGroupContext_chain [of rootContext items] show ?thesis by blast
qed

theorem ancestorIdentifiers_is_group_chain_then_own_identifier_witness:
  "\<not> isLocked ex_lc ex_c
   \<and> gc_ancestorIdentifiers (nestedGroupContext ex_root [(ex_a, [7]), (ex_g4, [5])]) = [4]
   \<and> map_option nm_ancestorIdentifiers
        (draggingNodeMeta (snd (draggableBinder_onDragStart ex_lc
           (nestedGroupContext ex_root [(ex_a, [7]), (ex_g4, [5])]) ex_c \<lparr>currentTarget = Some 15\<rparr> ex_idle)))
       = Some [4, 5]
   \<and> hoveredNodeMetaRef (onHover ex_root ex_g 12 ex_dragging) =
       Some \<lparr>nm_identifier = 2, nm_groupIdentifier = None,
         nm_ancestorIdentifiers = [2], nm_index = 1, nm_isGroup = True, nm_boundingGeometry = 12\<rparr>"
proof -
  let ?h = "\<lparr>nm_identifier = 2::nat, nm_groupIdentifier = None,
       nm_ancestorIdentifiers = [2], nm_index = 1, nm_isGroup = True, nm_boundingGeometry = 12::nat\<rparr>"
  have unlocked: "\<not> isLocked ex_lc ex_c"
    by (simp add: isLocked_def ex_lc_def ex_c_def)
  have hov: "hoveredNodeMetaRef (onHover ex_root ex_g 12 ex_dragging) = Some ?h"
    unfolding ex_dragging_eq by (simp add: ex_root_def ex_g_def item_defs Let_def)
  note inst = ancestorIdentifiers_is_group_chain_then_own_identifier
      [where lc = ex_lc and p = ex_c and event = "\<lparr>currentTarget = Some 15\<rparr>" and element = 15
         and gc = "nestedGroupContext ex_root [(ex_a, [7]), (ex_g4, [5])]" and s = ex_idle
         and rootContext = ex_root and items = "[(ex_a, [7]), (ex_g4, [5])]"]
  have chain: "gc_ancestorIdentifiers (nestedGroupContext ex_root [(ex_a, [7]), (ex_g4, [5])]) = [4]"
    using inst by (simp add: ex_root_def ex_g4_def ex_a_def isGroup_def)
  have start: "map_option nm_ancestorIdentifiers
        (draggingNodeMeta (snd (draggableBinder_onDragStart ex_lc
           (nestedGroupContext ex_root [(ex_a, [7]), (ex_g4, [5])]) ex_c \<lparr>currentTarget = Some 15\<rparr> ex_idle)))
       = Some [4, 5]"
    using inst [THEN conjunct1] unlocked chain by (simp add: ex_c_def)
  have "nm_ancestorIdentifiers ?h = gc_ancestorIdentifiers ex_root @ [p_identifier ex_g]"
    using ancestorIdentifiers_is_group_chain_then_own_identifier
            [where gc = ex_root and p = ex_g and element = 12 and s = ex_dragging and m = ?h,
             THEN conjunct2, THEN conjunct1] hov
    by blast
  then show ?thesis
    using unlocked chain start hov by simp
qed

section \<open>The continuous drag handler\<close>

text \<open>C10: the continuous drag handler moves the ghost element by the movement, and only on
  an unlocked item with the pointer down; it leaves the dragging node, the hovered node, the
  destination, the stacked group and the drop line's visibility as they were. Drag-start
  leaves the destination alone and drag-end clears it.\<close>

theorem continuous_drag_only_moves_the_ghost:
  "draggableBinder_onDrag lc p down movement s =
     (if \<not> isLocked lc p \<and> down
      then s\<lparr>trace := trace s @ [MoveGhostElement (lc_ghostWrapperElementRef lc) movement]\<rparr>
      else s)
   \<and> draggingNodeMeta (draggableBinder_onDrag lc p down movement s) = draggingNodeMeta s
   \<and> hoveredNodeMetaRef (draggableBinder_onDrag lc p down movement s) = hoveredNodeMetaRef s
   \<and> destinationMetaRef (draggableBinder_onDrag lc p down movement s) = destinationMetaRef s
   \<and> stackedGroupIdentifier (draggableBinder_onDrag lc p down movement s) = stackedGroupIdentifier s
   \<and> isVisibleDropLineElement (draggableBinder_onDrag lc p down movement s)
       = isVisibleDropLineElement s
   \<and> destinationMetaRef (onDragStart lc gc p element s) = destinationMetaRef s
   \<and> destinationMetaRef (onDragEnd lc gc p s) = None"
  by (simp add: item_defs Let_def)

theorem continuous_drag_only_moves_the_ghost_witness:
  "draggableBinder_onDrag ex_lc ex_a True (3, 4) ex_stacked =
     ex_stacked\<lparr>trace := trace ex_stacked @ [MoveGhostElement (Some 100) (3, 4)]\<rparr>
   \<and> draggableBinder_onDrag ex_lc ex_a False (3, 4) ex_stacked = ex_stacked
   \<and> destinationMetaRef (draggableBinder_onDrag ex_lc ex_a True (3, 4) ex_stacked) =
       Some \<lparr>dm_groupIdentifier = Some 2, dm_index = None\<rparr>"
proof -
  have unlocked: "\<not> isLocked ex_lc ex_a"
    by (simp add: isLocked_def ex_lc_def ex_a_def)
  have dest: "destinationMetaRef ex_stacked = Some \<lparr>dm_groupIdentifier = Some 2, dm_index = None\<rparr>"
    by (simp add: ex_stacked_eq)
  show ?thesis
    using continuous_drag_only_moves_the_ghost
            [where lc = ex_lc and p = ex_a and down = True and movement = "(3, 4)" and s = ex_stacked]
          continuous_drag_only_moves_the_ghost
            [where lc = ex_lc and p = ex_a and down = False and movement = "(3, 4)" and s = ex_stacked]
          unlocked dest
    by (simp add: ex_lc_def)
qed


end
